theory Spec2Isabelle
  imports Main "HOL-Library.Sublist" "HOL-Library.Multiset"
begin

section \<open>String built-ins used by the panels\<close>

text \<open>
  JavaScript strings are modelled as HOL strings over the ASCII range. On that range
  \<^verbatim>\<open>String.prototype.trim\<close> strips TAB, LF, VT, FF, CR and SPACE from both ends,
  \<^verbatim>\<open>toLowerCase\<close> maps \<open>A..Z\<close> to \<open>a..z\<close> and leaves every other character alone,
  and \<^verbatim>\<open>s.includes(t)\<close> tests whether \<open>t\<close> is a contiguous part of \<open>s\<close>.
\<close>

definition isWhiteSpace :: "char \<Rightarrow> bool" where
  "isWhiteSpace c = (of_char c \<in> {9, 10, 11, 12, 13, 32 :: nat})"

definition trim :: "string \<Rightarrow> string" where
  "trim s = rev (dropWhile isWhiteSpace (rev (dropWhile isWhiteSpace s)))"

definition lowerChar :: "char \<Rightarrow> char" where
  "lowerChar c =
     (if 65 \<le> (of_char c :: nat) \<and> (of_char c :: nat) \<le> 90
      then char_of (of_char c + (32 :: nat)) else c)"

definition toLowerCase :: "string \<Rightarrow> string" where
  "toLowerCase s = map lowerChar s"

definition str_includes :: "string \<Rightarrow> string \<Rightarrow> bool" where
  "str_includes s t = sublist t s"

text \<open>
  A string used as a condition is truthy unless it is empty. \<^verbatim>\<open>v || d\<close>, for a \<open>v\<close>
  that is \<^verbatim>\<open>null\<close> or a string, is \<open>v\<close> when \<open>v\<close> is a non-empty string and \<open>d\<close>
  otherwise.
\<close>

definition truthy :: "string \<Rightarrow> bool" where
  "truthy s = (s \<noteq> [])"

definition or_else :: "string option \<Rightarrow> string \<Rightarrow> string" where
  "or_else v d = (case v of None \<Rightarrow> d | Some s \<Rightarrow> if truthy s then s else d)"

section \<open>Data model\<close>

text \<open>
  A timestamp is the instant, in milliseconds since the epoch, that the ISO-8601 string
  produced by \<^verbatim>\<open>new Date(ms).toISOString()\<close> denotes. A field that the object literal of
  the source leaves out is \<open>None\<close>.
\<close>

type_synonym timestamp = int

record task =
  task_id :: string
  title :: string
  description :: string
  status :: string
  priority :: "string option"
  dueDate :: "timestamp option"
  createdAt :: timestamp
  updatedAt :: "timestamp option"

text \<open>The \<^verbatim>\<open>filters\<close> state of the Task panel: \<^verbatim>\<open>{ status, search }\<close>.\<close>

record filter_spec =
  filter_status :: string
  filter_search :: string

section \<open>Filter Engine\<close>

text \<open>
  \<^verbatim>\<open>applyFilters(taskList, filterSettings)\<close>: the value it hands to
  \<^verbatim>\<open>setFilteredTasks\<close>. The two stages are the two \<^verbatim>\<open>if\<close> blocks of the source,
  each reassigning \<^verbatim>\<open>result\<close>.
\<close>

definition applyFilters :: "task list \<Rightarrow> filter_spec \<Rightarrow> task list" where
  "applyFilters taskList filterSettings =
     (let result = taskList;
          result = (if filter_status filterSettings \<noteq> ''all''
                    then filter (\<lambda>task. status task = filter_status filterSettings) result
                    else result);
          result = (if truthy (trim (filter_search filterSettings))
                    then (let searchTerm = trim (toLowerCase (filter_search filterSettings))
                          in filter (\<lambda>task. str_includes (toLowerCase (title task)) searchTerm \<or>
                                             str_includes (toLowerCase (description task)) searchTerm)
                               result)
                    else result)
      in result)"

text \<open>The predicate the specification gives for a record that remains in the view.\<close>

definition passes :: "filter_spec \<Rightarrow> task \<Rightarrow> bool" where
  "passes spec t =
     ((filter_status spec \<noteq> ''all'' \<longrightarrow> status t = filter_status spec) \<and>
      (trim (filter_search spec) \<noteq> [] \<longrightarrow>
       str_includes (toLowerCase (title t)) (trim (toLowerCase (filter_search spec))) \<or>
       str_includes (toLowerCase (description t)) (trim (toLowerCase (filter_search spec)))))"


section \<open>Browser environment\<close>

text \<open>
  \<^verbatim>\<open>JSON.parse\<close> and \<^verbatim>\<open>JSON.stringify\<close> are built-ins of the platform, so they are
  parameters of the model. \<open>parse J b = None\<close> stands for \<^verbatim>\<open>JSON.parse(b)\<close> raising
  a SyntaxError; \<open>Some c\<close> for bytes that decode to the collection \<open>c\<close>. Bytes that
  decode to something that is not a collection of records are outside the model.
\<close>

record 'a JSON =
  parse :: "string \<Rightarrow> 'a option"
  stringify :: "'a \<Rightarrow> string"

text \<open>A \<^verbatim>\<open>StorageEvent\<close>; both attributes may be \<^verbatim>\<open>null\<close>.\<close>

record storage_event =
  key :: "string option"
  newValue :: "string option"

text \<open>
  What a panel sees of the browser: the key/value store, and, as traces, the calls of
  \<^verbatim>\<open>localStorage.setItem\<close>, the events given to \<^verbatim>\<open>window.dispatchEvent\<close>, the
  \<^verbatim>\<open>alert\<close> boxes shown and the lines of \<^verbatim>\<open>console.error\<close>.
\<close>

record browser =
  localStorage :: "string \<rightharpoonup> string"
  setItem_calls :: "(string \<times> string) list"
  dispatched :: "storage_event list"
  alerts :: "string list"
  console_errors :: "string list"

definition getItem :: "string \<Rightarrow> 'a browser_scheme \<Rightarrow> string option" where
  "getItem k s = localStorage s k"

definition setItem :: "string \<Rightarrow> string \<Rightarrow> 'a browser_scheme \<Rightarrow> 'a browser_scheme" where
  "setItem k v s =
     s\<lparr>localStorage := (localStorage s)(k \<mapsto> v), setItem_calls := setItem_calls s @ [(k, v)]\<rparr>"

section \<open>Task Collection Manager (the TaskList component)\<close>

record edit_form =
  form_title :: string
  form_description :: string

text \<open>The \<^verbatim>\<open>useState\<close> cells of the component, on top of the browser.\<close>

record TaskList_state = browser +
  tasks :: "task list"
  filteredTasks :: "task list"
  loading :: bool
  error :: "string option"
  editingTask :: "string option"
  editForm :: edit_form
  filters :: filter_spec

text \<open>The initial values given to \<^verbatim>\<open>useState\<close>: the state of the first render.\<close>

definition filters_init :: filter_spec where
  "filters_init = \<lparr>filter_status = ''all'', filter_search = []\<rparr>"

definition TaskList_init :: "browser \<Rightarrow> TaskList_state" where
  "TaskList_init b =
     \<lparr>localStorage = localStorage b, setItem_calls = setItem_calls b,
      dispatched = dispatched b, alerts = alerts b, console_errors = console_errors b,
      tasks = [], filteredTasks = [], loading = True, error = None, editingTask = None,
      editForm = \<lparr>form_title = [], form_description = []\<rparr>, filters = filters_init\<rparr>"

text \<open>
  \<^verbatim>\<open>handleFilterChange(filterType, value)\<close>, for the two filter types the controls
  pass, and the Clear Filters button.
\<close>

definition handleFilterChange_status :: "string \<Rightarrow> TaskList_state \<Rightarrow> TaskList_state" where
  "handleFilterChange_status v s =
     (let newFilters = (filters s)\<lparr>filter_status := v\<rparr>
      in s\<lparr>filters := newFilters, filteredTasks := applyFilters (tasks s) newFilters\<rparr>)"

definition handleFilterChange_search :: "string \<Rightarrow> TaskList_state \<Rightarrow> TaskList_state" where
  "handleFilterChange_search v s =
     (let newFilters = (filters s)\<lparr>filter_search := v\<rparr>
      in s\<lparr>filters := newFilters, filteredTasks := applyFilters (tasks s) newFilters\<rparr>)"

definition clearFilters :: "TaskList_state \<Rightarrow> TaskList_state" where
  "clearFilters s =
     s\<lparr>filters := \<lparr>filter_status = ''all'', filter_search = []\<rparr>,
       filteredTasks := applyFilters (tasks s) \<lparr>filter_status = ''all'', filter_search = []\<rparr>\<rparr>"

text \<open>
  The seed collection of \<^verbatim>\<open>loadTasks\<close>. The array literal reads the clock eight
  times, once for every \<^verbatim>\<open>dueDate\<close> and every \<^verbatim>\<open>createdAt\<close>, in the order of the
  source (\<^verbatim>\<open>new Date()\<close> three times, then \<^verbatim>\<open>Date.now()\<close> five times). A clock gives
  the readings of one call in the order in which they are taken: \<open>clk k\<close> is reading
  number \<open>k\<close>, and nothing is assumed of how the readings relate. The literal has no
  \<^verbatim>\<open>updatedAt\<close>.
\<close>

type_synonym clock = "nat \<Rightarrow> timestamp"

definition mockTasks :: "clock \<Rightarrow> task list" where
  "mockTasks clk =
     [\<lparr>task_id = ''1'', title = ''Complete project documentation'',
       description = ''Write comprehensive documentation for the TaskFlow project'',
       status = ''incomplete'', priority = Some ''high'',
       dueDate = Some (clk 0), createdAt = clk 1, updatedAt = None\<rparr>,
      \<lparr>task_id = ''2'', title = ''Fix navigation bug'',
       description = ''Address the issue with sidebar navigation on mobile devices'',
       status = ''complete'', priority = Some ''medium'',
       dueDate = Some (clk 2), createdAt = clk 3 - 86400000, updatedAt = None\<rparr>,
      \<lparr>task_id = ''3'', title = ''Implement user feedback'',
       description = ''Add the user feedback form to the dashboard'',
       status = ''incomplete'', priority = Some ''low'',
       dueDate = Some (clk 4 + 86400000), createdAt = clk 5 - 172800000, updatedAt = None\<rparr>,
      \<lparr>task_id = ''4'', title = ''Update dependencies'',
       description = ''Update all npm packages to their latest versions'',
       status = ''incomplete'', priority = Some ''medium'',
       dueDate = Some (clk 6 + 172800000), createdAt = clk 7 - 259200000, updatedAt = None\<rparr>]"

text \<open>
  \<^verbatim>\<open>loadTasks\<close> and \<^verbatim>\<open>handleStorageChange\<close> are created inside
  \<^verbatim>\<open>useEffect(() => {...}, [])\<close>. The effect runs once, after the first render, so the
  name \<^verbatim>\<open>filters\<close> in both bodies is bound to the \<^verbatim>\<open>filters\<close> of that render for
  as long as the component is mounted. The binding is the argument \<open>filters_c\<close>;
  the setters write the current state.

  The \<^verbatim>\<open>else\<close> branch of \<^verbatim>\<open>loadTasks\<close>:
\<close>

definition initMockTasks ::
  "task list JSON \<Rightarrow> filter_spec \<Rightarrow> clock \<Rightarrow> TaskList_state \<Rightarrow> TaskList_state" where
  "initMockTasks J filters_c clk s =
     (let mock = mockTasks clk;
          s = setItem ''tasks'' (stringify J mock) s
      in s\<lparr>tasks := mock, filteredTasks := applyFilters mock filters_c,
            error := None, loading := False\<rparr>)"

definition loadTasks ::
  "task list JSON \<Rightarrow> filter_spec \<Rightarrow> clock \<Rightarrow> TaskList_state \<Rightarrow> TaskList_state" where
  "loadTasks J filters_c clk s =
     (case getItem ''tasks'' s of
        None \<Rightarrow> initMockTasks J filters_c clk s
      | Some storedTasks \<Rightarrow>
          if truthy storedTasks then
            (case parse J storedTasks of
               Some parsedTasks \<Rightarrow>
                 s\<lparr>tasks := parsedTasks, filteredTasks := applyFilters parsedTasks filters_c,
                   error := None, loading := False\<rparr>
             | None \<Rightarrow>
                 s\<lparr>console_errors := console_errors s @ [''Error loading tasks:''],
                   error := Some ''Failed to load tasks. Please try again later.'',
                   loading := False\<rparr>)
          else initMockTasks J filters_c clk s)"

definition handleStorageChange ::
  "task list JSON \<Rightarrow> filter_spec \<Rightarrow> storage_event \<Rightarrow> TaskList_state \<Rightarrow> TaskList_state" where
  "handleStorageChange J filters_c e s =
     (if key e = Some ''tasks'' then
        (case parse J (or_else (newValue e) ''[]'') of
           Some updatedTasks \<Rightarrow>
             s\<lparr>tasks := updatedTasks, filteredTasks := applyFilters updatedTasks filters_c\<rparr>
         | None \<Rightarrow>
             s\<lparr>console_errors := console_errors s @ [''Error parsing tasks from storage:'']\<rparr>)
      else s)"

text \<open>
  The mounted component: the effect of the first render, whose \<^verbatim>\<open>filters\<close> is the initial
  one, loads the tasks and registers the listener.
\<close>

definition mount_loadTasks :: "task list JSON \<Rightarrow> clock \<Rightarrow> TaskList_state \<Rightarrow> TaskList_state" where
  "mount_loadTasks J clk s = loadTasks J filters_init clk s"

definition storage_listener :: "task list JSON \<Rightarrow> storage_event \<Rightarrow> TaskList_state \<Rightarrow> TaskList_state" where
  "storage_listener J e s = handleStorageChange J filters_init e s"

text \<open>
  \<^verbatim>\<open>window.dispatchEvent(e)\<close> runs the listeners registered on \<^verbatim>\<open>window\<close> for
  \<^verbatim>\<open>storage\<close> before it returns; in this repository that is the listener of the mounted
  TaskList itself.
\<close>

definition dispatchEvent :: "task list JSON \<Rightarrow> storage_event \<Rightarrow> TaskList_state \<Rightarrow> TaskList_state" where
  "dispatchEvent J e s = storage_listener J e (s\<lparr>dispatched := dispatched s @ [e]\<rparr>)"

text \<open>
  \<^verbatim>\<open>handleStatusChange(taskId)\<close>. \<open>toggleTask\<close> is the callback of \<^verbatim>\<open>tasks.map\<close>;
  \<open>now\<close> is the clock read by \<^verbatim>\<open>new Date()\<close>.
\<close>

definition toggleTask :: "timestamp \<Rightarrow> string \<Rightarrow> task \<Rightarrow> task" where
  "toggleTask now taskId task =
     (if task_id task = taskId
      then task\<lparr>status := (if status task = ''complete'' then ''incomplete'' else ''complete''),
                updatedAt := Some now\<rparr>
      else task)"

definition handleStatusChange ::
  "task list JSON \<Rightarrow> timestamp \<Rightarrow> string \<Rightarrow> TaskList_state \<Rightarrow> TaskList_state" where
  "handleStatusChange J now taskId s =
     (let updatedTasks = map (toggleTask now taskId) (tasks s);
          s = s\<lparr>tasks := updatedTasks, filteredTasks := applyFilters updatedTasks (filters s)\<rparr>;
          s = setItem ''tasks'' (stringify J updatedTasks) s
      in dispatchEvent J \<lparr>key = Some ''tasks'', newValue = Some (stringify J updatedTasks)\<rparr> s)"

text \<open>\<^verbatim>\<open>startEditing(task)\<close>, \<^verbatim>\<open>handleInputChange\<close> for the two inputs, \<^verbatim>\<open>cancelEditing()\<close>.\<close>

definition startEditing :: "task \<Rightarrow> TaskList_state \<Rightarrow> TaskList_state" where
  "startEditing task s =
     s\<lparr>editingTask := Some (task_id task),
       editForm := \<lparr>form_title = title task, form_description = description task\<rparr>\<rparr>"

definition handleInputChange_title :: "string \<Rightarrow> TaskList_state \<Rightarrow> TaskList_state" where
  "handleInputChange_title v s = s\<lparr>editForm := (editForm s)\<lparr>form_title := v\<rparr>\<rparr>"

definition handleInputChange_description :: "string \<Rightarrow> TaskList_state \<Rightarrow> TaskList_state" where
  "handleInputChange_description v s = s\<lparr>editForm := (editForm s)\<lparr>form_description := v\<rparr>\<rparr>"

definition cancelEditing :: "TaskList_state \<Rightarrow> TaskList_state" where
  "cancelEditing s = s\<lparr>editingTask := None\<rparr>"

text \<open>
  \<^verbatim>\<open>saveTask(taskId)\<close>; the title and the description come from \<^verbatim>\<open>editForm\<close>.
  \<open>editTask\<close> is the callback of \<^verbatim>\<open>tasks.map\<close>.
\<close>

definition editTask :: "edit_form \<Rightarrow> timestamp \<Rightarrow> string \<Rightarrow> task \<Rightarrow> task" where
  "editTask form now taskId task =
     (if task_id task = taskId
      then task\<lparr>title := form_title form, description := form_description form,
                updatedAt := Some now\<rparr>
      else task)"

definition saveTask ::
  "task list JSON \<Rightarrow> timestamp \<Rightarrow> string \<Rightarrow> TaskList_state \<Rightarrow> TaskList_state" where
  "saveTask J now taskId s =
     (if \<not> truthy (trim (form_title (editForm s)))
      then s\<lparr>alerts := alerts s @ [''Task title cannot be empty'']\<rparr>
      else
        (let updatedTasks = map (editTask (editForm s) now taskId) (tasks s);
             s = s\<lparr>tasks := updatedTasks, filteredTasks := applyFilters updatedTasks (filters s),
                    editingTask := None\<rparr>;
             s = setItem ''tasks'' (stringify J updatedTasks) s
         in dispatchEvent J \<lparr>key = Some ''tasks'', newValue = Some (stringify J updatedTasks)\<rparr> s))"

section \<open>Log Collection Manager (the RecentUsers component)\<close>

record userLog =
  log_id :: string
  userId :: string
  username :: string
  role :: string
  action :: string
  loginTime :: timestamp
  logoutTime :: "timestamp option"
  ipAddress :: string
  tokenName :: string

record RecentUsers_state = browser +
  userLogs :: "userLog list"
  loadingLogs :: bool
  deleteConfirm :: "string option"

definition RecentUsers_init :: "browser \<Rightarrow> RecentUsers_state" where
  "RecentUsers_init b =
     \<lparr>localStorage = localStorage b, setItem_calls = setItem_calls b,
      dispatched = dispatched b, alerts = alerts b, console_errors = console_errors b,
      userLogs = [], loadingLogs = True, deleteConfirm = None\<rparr>"

text \<open>
  The seed logs of \<^verbatim>\<open>loadUserLogs\<close> and \<^verbatim>\<open>resetLogs\<close>. The five readings of the clock
  in the literal are taken as the one instant \<open>now\<close>; the login times are an hour, two
  hours and a day before it.
\<close>

definition mockLogs :: "timestamp \<Rightarrow> userLog list" where
  "mockLogs now =
     [\<lparr>log_id = ''1'', userId = ''admin-123'', username = ''admin@example.com'',
       role = ''admin'', action = ''login'', loginTime = now - 3600000, logoutTime = None,
       ipAddress = ''192.168.1.1'', tokenName = ''eyJhbGciOi...''\<rparr>,
      \<lparr>log_id = ''2'', userId = ''user-456'', username = ''user@example.com'',
       role = ''user'', action = ''login'', loginTime = now - 7200000,
       logoutTime = Some (now - 3600000),
       ipAddress = ''192.168.1.2'', tokenName = ''eyJhbGciOi...''\<rparr>,
      \<lparr>log_id = ''3'', userId = ''user-789'', username = ''test@example.com'',
       role = ''user'', action = ''login'', loginTime = now - 86400000,
       logoutTime = Some (now - 82800000),
       ipAddress = ''192.168.1.3'', tokenName = ''eyJhbGciOi...''\<rparr>]"






text \<open>\<^verbatim>\<open>handleDelete(logId)\<close>, \<^verbatim>\<open>cancelDelete()\<close> and \<^verbatim>\<open>resetLogs()\<close>.\<close>

definition handleDelete ::
  "userLog list JSON \<Rightarrow> string \<Rightarrow> RecentUsers_state \<Rightarrow> RecentUsers_state" where
  "handleDelete J logId s =
     (if deleteConfirm s \<noteq> Some logId
      then s\<lparr>deleteConfirm := Some logId\<rparr>
      else
        (let updatedLogs = filter (\<lambda>log. log_id log \<noteq> logId) (userLogs s);
             s = s\<lparr>userLogs := updatedLogs\<rparr>;
             s = setItem ''userLogs'' (stringify J updatedLogs) s
         in s\<lparr>deleteConfirm := None\<rparr>))"

definition cancelDelete :: "RecentUsers_state \<Rightarrow> RecentUsers_state" where
  "cancelDelete s = s\<lparr>deleteConfirm := None\<rparr>"

definition resetLogs ::
  "userLog list JSON \<Rightarrow> timestamp \<Rightarrow> RecentUsers_state \<Rightarrow> RecentUsers_state" where
  "resetLogs J now s =
     (let mock = mockLogs now;
          s = setItem ''userLogs'' (stringify J mock) s
      in s\<lparr>userLogs := mock\<rparr>)"

section \<open>Example data\<close>

text \<open>
  A stand-in for the JSON built-ins that is given by a finite table of pairs of bytes and
  the collection they decode to: bytes that are not in the table do not parse. It is used
  to run the model on concrete stores.
\<close>

definition table_JSON :: "(string \<times> 'a) list \<Rightarrow> 'a JSON" where
  "table_JSON tbl =
     \<lparr>parse = map_of tbl,
      stringify = (\<lambda>v. case find (\<lambda>p. snd p = v) tbl of Some p \<Rightarrow> fst p | None \<Rightarrow> ''null'')\<rparr>"

definition browser_empty :: browser where
  "browser_empty =
     \<lparr>localStorage = Map.empty, setItem_calls = [], dispatched = [], alerts = [],
      console_errors = []\<rparr>"

definition browser_garbled :: browser where
  "browser_garbled = browser_empty\<lparr>localStorage := [''tasks'' \<mapsto> ''[{oops'']\<rparr>"

definition browser_blank :: browser where
  "browser_blank = browser_empty\<lparr>localStorage := [''tasks'' \<mapsto> []]\<rparr>"

definition task_a :: task where
  "task_a =
     \<lparr>task_id = ''1'', title = ''Fix Bug'', description = ''nav'', status = ''incomplete'',
      priority = None, dueDate = None, createdAt = 0, updatedAt = None\<rparr>"

definition task_b :: task where
  "task_b =
     \<lparr>task_id = ''2'', title = ''Fix navigation bug'', description = ''sidebar'',
      status = ''complete'', priority = Some ''medium'', dueDate = None,
      createdAt = 1699913600000, updatedAt = Some 1700000000000\<rparr>"

definition task_c :: task where
  "task_c =
     \<lparr>task_id = ''3'', title = ''Write docs'', description = ''Debugging guide'',
      status = ''incomplete'', priority = Some ''low'', dueDate = None,
      createdAt = 1699913600000, updatedAt = None\<rparr>"

definition J_a :: "task list JSON" where
  "J_a = table_JSON [(''[]'', []), (''[a]'', [task_a])]"

definition J_b :: "task list JSON" where
  "J_b = table_JSON
     [(''[]'', []),
      (''[a,b]'', [task_a, task_b]),
      (''[a,b1]'', [task_a, task_b\<lparr>status := ''incomplete''\<rparr>]),
      (''[a,b2]'', [task_a, task_b\<lparr>status := ''incomplete'', updatedAt := Some 1700000000500\<rparr>])]"

text \<open>
  A clock that stands still during a call, and one that advances by a millisecond from
  each reading to the next.
\<close>

definition clock_at :: "timestamp \<Rightarrow> clock" where
  "clock_at t = (\<lambda>k. t)"

definition clock_ticking :: clock where
  "clock_ticking = (\<lambda>k. 1700000000000 + int k)"

definition J_seed :: "task list JSON" where
  "J_seed = table_JSON [(''[]'', []), (''[seed]'', mockTasks clock_ticking)]"

definition panel_a :: TaskList_state where
  "panel_a =
     (TaskList_init browser_empty)
       \<lparr>tasks := [task_a], filteredTasks := [task_a], loading := False\<rparr>"

definition panel_b :: TaskList_state where
  "panel_b =
     (TaskList_init browser_empty)
       \<lparr>localStorage := [''tasks'' \<mapsto> ''[a,b]''], tasks := [task_a, task_b],
        filteredTasks := [task_a, task_b], loading := False\<rparr>"

definition panel_edit :: TaskList_state where
  "panel_edit =
     handleInputChange_description ''x''
       (handleInputChange_title ''  '' (startEditing task_a panel_a))"

definition log_at :: "string \<Rightarrow> timestamp \<Rightarrow> userLog" where
  "log_at i t =
     \<lparr>log_id = i, userId = ''user-456'', username = ''user@example.com'', role = ''user'',
      action = ''login'', loginTime = t, logoutTime = None, ipAddress = ''192.168.1.2'',
      tokenName = ''eyJhbGciOi...''\<rparr>"

definition J_logs :: "userLog list JSON" where
  "J_logs = table_JSON
     [(''[]'', []),
      (''[1,2,3]'', [log_at ''1'' 100, log_at ''2'' 300, log_at ''3'' 200]),
      (''[2,1]'', [log_at ''2'' 300, log_at ''1'' 100])]"

definition browser_logs :: browser where
  "browser_logs = browser_empty\<lparr>localStorage := [''userLogs'' \<mapsto> ''[1,2,3]'']\<rparr>"

definition logs_ready :: RecentUsers_state where
  "logs_ready =
     (RecentUsers_init browser_logs)
       \<lparr>userLogs := [log_at ''2'' 300, log_at ''3'' 200, log_at ''1'' 100],
        loadingLogs := False\<rparr>"

section \<open>Filter Engine: properties\<close>

lemma applyFilters_filter: "applyFilters C S = filter (passes S) C"
  by (auto simp: applyFilters_def passes_def truthy_def Let_def intro: filter_cong)

lemma applyFilters_Nil: "applyFilters [] S = []"
  by (simp add: applyFilters_def Let_def)

lemma applyFilters_init: "applyFilters C filters_init = C"
  by (simp add: applyFilters_def Let_def filters_init_def truthy_def trim_def)

text \<open>
  Claim C2. For every collection and every filter spec, the Filter Engine retains
  exactly the records that pass both filters (the status filter when the spec's status
  is not \<open>all\<close>, the search filter when the trimmed search text is not empty; a
  record matches the search when the trimmed lower-cased search text is part of its
  lower-cased title or of its lower-cased description), and the retained records keep
  the relative order they have in the input.
\<close>

theorem applyFilters_retains_exactly:
  "applyFilters C S = filter (passes S) C \<and>
   set (applyFilters C S) = {t \<in> set C. passes S t} \<and>
   subseq (applyFilters C S) C"
  by (simp add: applyFilters_filter)

lemma passes_examples:
  "\<not> passes \<lparr>filter_status = ''incomplete'', filter_search = '' BUG ''\<rparr> task_b"
  "passes \<lparr>filter_status = ''incomplete'', filter_search = '' BUG ''\<rparr> task_a"
  "passes \<lparr>filter_status = ''incomplete'', filter_search = '' BUG ''\<rparr> task_c"
  "\<not> passes \<lparr>filter_status = ''incomplete'', filter_search = '' BUG ''\<rparr>
       (task_a\<lparr>title := ''Fix it''\<rparr>)"
  by code_simp+

text \<open>
  With status \<open>incomplete\<close> and search \<open>BUG\<close> between blanks: \<open>task_b\<close> is complete,
  \<open>task_c\<close> has the text in its description, the retitled \<open>task_a\<close> has it nowhere and
  \<open>task_a\<close> has it in its title.
\<close>

theorem applyFilters_retains_exactly_witness:
  "applyFilters [task_b, task_c, task_a\<lparr>title := ''Fix it''\<rparr>, task_a]
     \<lparr>filter_status = ''incomplete'', filter_search = '' BUG ''\<rparr> = [task_c, task_a]"
  using applyFilters_retains_exactly
    [of "[task_b, task_c, task_a\<lparr>title := ''Fix it''\<rparr>, task_a]"
        "\<lparr>filter_status = ''incomplete'', filter_search = '' BUG ''\<rparr>"]
    passes_examples
  by simp

text \<open>
  Claim C3. Applying the Filter Engine twice with the same spec gives the same view as
  applying it once.
\<close>

theorem applyFilters_idempotent:
  "applyFilters (applyFilters C S) S = applyFilters C S"
  by (simp add: applyFilters_filter)

section \<open>Task Collection Manager: the storage listener\<close>

lemma handleStorageChange_parsed:
  "key e = Some ''tasks'' \<Longrightarrow> parse J (or_else (newValue e) ''[]'') = Some c \<Longrightarrow>
   handleStorageChange J fc e s = s\<lparr>tasks := c, filteredTasks := applyFilters c fc\<rparr>"
  by (simp add: handleStorageChange_def)

text \<open>
  The listener replaces the projection by the decoded collection, writes nothing and
  dispatches nothing; its view is the whole decoded collection, whatever the panel's
  \<open>filters\<close> are, since it filters with the \<open>filters\<close> of the first render.
\<close>

lemma storage_listener_parsed:
  "key e = Some ''tasks'' \<Longrightarrow> parse J (or_else (newValue e) ''[]'') = Some c \<Longrightarrow>
   storage_listener J e s = s\<lparr>tasks := c, filteredTasks := c\<rparr>"
  by (simp add: storage_listener_def handleStorageChange_parsed applyFilters_init)

lemma handleStorageChange_silent:
  "dispatched (handleStorageChange J fc e s) = dispatched s \<and>
   setItem_calls (handleStorageChange J fc e s) = setItem_calls s \<and>
   localStorage (handleStorageChange J fc e s) = localStorage s \<and>
   filters (handleStorageChange J fc e s) = filters s"
  by (simp add: handleStorageChange_def split: option.split)

text \<open>
  Claim C1. On a storage event for \<open>tasks\<close> with parseable bytes the listener is to
  replace the projection by the decoded collection and to filter it with the Filter Spec
  the panel holds when the event is handled. The registered listener does the first and
  not the second: after the user has chosen the status filter \<open>complete\<close>, an event
  carrying the incomplete \<open>task_a\<close> and the complete \<open>task_b\<close> leaves both in the
  filtered view, where the panel's spec keeps \<open>task_b\<close> alone.
\<close>

theorem storage_listener_stale_filters:
  "filters (handleFilterChange_status ''complete'' panel_a) =
     \<lparr>filter_status = ''complete'', filter_search = []\<rparr> \<and>
   parse J_b ''[a,b]'' = Some [task_a, task_b] \<and>
   tasks (storage_listener J_b \<lparr>key = Some ''tasks'', newValue = Some ''[a,b]''\<rparr>
            (handleFilterChange_status ''complete'' panel_a)) = [task_a, task_b] \<and>
   filteredTasks (storage_listener J_b \<lparr>key = Some ''tasks'', newValue = Some ''[a,b]''\<rparr>
            (handleFilterChange_status ''complete'' panel_a)) = [task_a, task_b] \<and>
   applyFilters [task_a, task_b] \<lparr>filter_status = ''complete'', filter_search = []\<rparr> = [task_b]"
  by (simp add: storage_listener_def handleStorageChange_def or_else_def truthy_def J_b_def table_JSON_def
      handleFilterChange_status_def panel_a_def TaskList_init_def applyFilters_init
      applyFilters_def Let_def truthy_def trim_def task_a_def task_b_def filters_init_def)

text \<open>
  Claim C10. A storage event for \<open>tasks\<close> whose \<open>newValue\<close> is \<^verbatim>\<open>null\<close> is handled as
  if it carried \<^verbatim>\<open>'[]'\<close>: the projection and the filtered view become empty, and
  neither the error state nor the error console is touched. \<^verbatim>\<open>JSON.parse('[]')\<close> is the
  empty collection.
\<close>

theorem handleStorageChange_null_newValue:
  "key e = Some ''tasks'' \<Longrightarrow> newValue e = None \<Longrightarrow> parse J ''[]'' = Some [] \<Longrightarrow>
   tasks (handleStorageChange J fc e s) = [] \<and>
   filteredTasks (handleStorageChange J fc e s) = [] \<and>
   error (handleStorageChange J fc e s) = error s \<and>
   console_errors (handleStorageChange J fc e s) = console_errors s \<and>
   dispatched (handleStorageChange J fc e s) = dispatched s"
  by (simp add: handleStorageChange_parsed or_else_def truthy_def applyFilters_Nil)

theorem handleStorageChange_null_newValue_witness:
  "tasks panel_a = [task_a] \<and>
   tasks (handleStorageChange J_a \<lparr>filter_status = ''incomplete'', filter_search = []\<rparr>
            \<lparr>key = Some ''tasks'', newValue = None\<rparr> panel_a) = [] \<and>
   filteredTasks (handleStorageChange J_a \<lparr>filter_status = ''incomplete'', filter_search = []\<rparr>
            \<lparr>key = Some ''tasks'', newValue = None\<rparr> panel_a) = [] \<and>
   error (handleStorageChange J_a \<lparr>filter_status = ''incomplete'', filter_search = []\<rparr>
            \<lparr>key = Some ''tasks'', newValue = None\<rparr> panel_a) = None"
  using handleStorageChange_null_newValue [of "\<lparr>key = Some ''tasks'', newValue = None\<rparr>" J_a
      "\<lparr>filter_status = ''incomplete'', filter_search = []\<rparr>" panel_a]
  by (simp add: J_a_def table_JSON_def panel_a_def TaskList_init_def)

section \<open>Task Collection Manager: status toggle\<close>

lemma toggleTask_absent:
  "taskId \<notin> task_id ` set C \<Longrightarrow> map (toggleTask now taskId) C = C"
  by (induction C) (auto simp: toggleTask_def)

text \<open>
  When the bytes written decode to the collection they encode, the listener that the
  dispatch runs puts the same collection back; the view it leaves is unfiltered.
\<close>

lemma handleStatusChange_roundtrip:
  assumes "parse J (stringify J (map (toggleTask now taskId) (tasks s))) =
             Some (map (toggleTask now taskId) (tasks s))"
      and "stringify J (map (toggleTask now taskId) (tasks s)) \<noteq> []"
  shows "handleStatusChange J now taskId s =
     s\<lparr>localStorage :=
         (localStorage s)(''tasks'' \<mapsto> stringify J (map (toggleTask now taskId) (tasks s))),
       setItem_calls :=
         setItem_calls s @ [(''tasks'', stringify J (map (toggleTask now taskId) (tasks s)))],
       dispatched := dispatched s @
         [\<lparr>key = Some ''tasks'',
           newValue = Some (stringify J (map (toggleTask now taskId) (tasks s)))\<rparr>],
       tasks := map (toggleTask now taskId) (tasks s),
       filteredTasks := map (toggleTask now taskId) (tasks s)\<rparr>"
  using assms
  by (simp add: handleStatusChange_def Let_def dispatchEvent_def storage_listener_def
      handleStorageChange_def setItem_def or_else_def truthy_def applyFilters_init)

text \<open>
  Claim C4, amended. Toggling flips the status of every record with the given id
  (\<open>complete\<close> to \<open>incomplete\<close> and back), leaves its other fields alone and sets its
  \<open>updatedAt\<close> to the reading of the clock at the toggle, which is later than the
  previous \<open>updatedAt\<close> when the clock reads later than it; every other record is
  unchanged, and for an id that no record has the collection is the one before. The
  collection is written to the store under \<open>tasks\<close>. The JSON built-ins decode what they
  encode, and never encode to the empty string.
\<close>

theorem handleStatusChange_toggles:
  assumes "s' = handleStatusChange J now taskId s"
      and "parse J (stringify J (map (toggleTask now taskId) (tasks s))) =
             Some (map (toggleTask now taskId) (tasks s))"
      and "stringify J (map (toggleTask now taskId) (tasks s)) \<noteq> []"
  shows "length (tasks s') = length (tasks s) \<and>
     (\<forall>i < length (tasks s).
        (task_id (tasks s ! i) = taskId \<longrightarrow>
           (status (tasks s ! i) = ''complete'' \<longrightarrow> status (tasks s' ! i) = ''incomplete'') \<and>
           (status (tasks s ! i) = ''incomplete'' \<longrightarrow> status (tasks s' ! i) = ''complete'') \<and>
           updatedAt (tasks s' ! i) = Some now \<and>
           (\<forall>u. updatedAt (tasks s ! i) = Some u \<and> u < now \<longrightarrow>
                (\<exists>v. updatedAt (tasks s' ! i) = Some v \<and> u < v)) \<and>
           tasks s' ! i = (tasks s ! i)\<lparr>status := status (tasks s' ! i), updatedAt := Some now\<rparr>) \<and>
        (task_id (tasks s ! i) \<noteq> taskId \<longrightarrow> tasks s' ! i = tasks s ! i)) \<and>
     (taskId \<notin> task_id ` set (tasks s) \<longrightarrow> tasks s' = tasks s) \<and>
     localStorage s' ''tasks'' = Some (stringify J (tasks s')) \<and>
     setItem_calls s' = setItem_calls s @ [(''tasks'', stringify J (tasks s'))]"
proof -
  have eq: "tasks s' = map (toggleTask now taskId) (tasks s)"
    and st: "localStorage s' ''tasks'' =
               Some (stringify J (map (toggleTask now taskId) (tasks s)))"
    and ca: "setItem_calls s' =
               setItem_calls s @ [(''tasks'', stringify J (map (toggleTask now taskId) (tasks s)))]"
    using handleStatusChange_roundtrip [OF assms(2,3)] assms(1) by simp_all
  have "taskId \<notin> task_id ` set (tasks s) \<longrightarrow> tasks s' = tasks s"
    by (simp add: eq toggleTask_absent)
  moreover have "\<forall>i < length (tasks s).
        (task_id (tasks s ! i) = taskId \<longrightarrow>
           (status (tasks s ! i) = ''complete'' \<longrightarrow> status (tasks s' ! i) = ''incomplete'') \<and>
           (status (tasks s ! i) = ''incomplete'' \<longrightarrow> status (tasks s' ! i) = ''complete'') \<and>
           updatedAt (tasks s' ! i) = Some now \<and>
           (\<forall>u. updatedAt (tasks s ! i) = Some u \<and> u < now \<longrightarrow>
                (\<exists>v. updatedAt (tasks s' ! i) = Some v \<and> u < v)) \<and>
           tasks s' ! i = (tasks s ! i)\<lparr>status := status (tasks s' ! i), updatedAt := Some now\<rparr>) \<and>
        (task_id (tasks s ! i) \<noteq> taskId \<longrightarrow> tasks s' ! i = tasks s ! i)"
    by (simp add: eq toggleTask_def)
  ultimately show ?thesis
    by (simp add: eq st ca)
qed

text \<open>
  Toggling \<open>task_b\<close>, complete and last updated at 1700000000000, half a second later;
  and toggling an id that no record has.
\<close>

theorem handleStatusChange_toggles_witness:
  "status (tasks panel_b ! 1) = ''complete'' \<and>
   updatedAt (tasks panel_b ! 1) = Some 1700000000000 \<and>
   status (tasks (handleStatusChange J_b 1700000000500 ''2'' panel_b) ! 1) = ''incomplete'' \<and>
   updatedAt (tasks (handleStatusChange J_b 1700000000500 ''2'' panel_b) ! 1) =
     Some 1700000000500 \<and>
   tasks (handleStatusChange J_b 1700000000500 ''2'' panel_b) ! 0 = tasks panel_b ! 0 \<and>
   length (tasks (handleStatusChange J_b 1700000000500 ''2'' panel_b)) = 2 \<and>
   tasks (handleStatusChange J_b 1700000000500 ''9'' panel_b) = tasks panel_b"
proof -
  have rt: "parse J_b (stringify J_b (map (toggleTask 1700000000500 ''2'') (tasks panel_b))) =
     Some (map (toggleTask 1700000000500 ''2'') (tasks panel_b))"
    and ne: "stringify J_b (map (toggleTask 1700000000500 ''2'') (tasks panel_b)) \<noteq> []"
    by (simp_all add: J_b_def table_JSON_def panel_b_def toggleTask_def task_a_def task_b_def)
  have rt9: "parse J_b (stringify J_b (map (toggleTask 1700000000500 ''9'') (tasks panel_b))) =
     Some (map (toggleTask 1700000000500 ''9'') (tasks panel_b))"
    and ne9: "stringify J_b (map (toggleTask 1700000000500 ''9'') (tasks panel_b)) \<noteq> []"
    by (simp_all add: J_b_def table_JSON_def panel_b_def toggleTask_def task_a_def task_b_def)
  have len: "length (tasks panel_b) = 2" and t0: "tasks panel_b ! 0 = task_a"
    and t1: "tasks panel_b ! Suc 0 = task_b"
    by (simp_all add: panel_b_def)
  note inst = handleStatusChange_toggles [OF refl rt ne]
  note each = inst [THEN conjunct2, THEN conjunct1, rule_format]
  have "(0::nat) < length (tasks panel_b)" and "(1::nat) < length (tasks panel_b)"
    by (simp_all add: len)
  from each [OF this(1)] each [OF this(2)]
  have "tasks (handleStatusChange J_b 1700000000500 ''2'' panel_b) ! 0 = tasks panel_b ! 0"
    and "status (tasks (handleStatusChange J_b 1700000000500 ''2'' panel_b) ! 1) = ''incomplete''"
    and "updatedAt (tasks (handleStatusChange J_b 1700000000500 ''2'' panel_b) ! 1) =
           Some 1700000000500"
    by (simp_all add: t0 t1 task_a_def task_b_def)
  moreover from inst have "length (tasks (handleStatusChange J_b 1700000000500 ''2'' panel_b)) = 2"
    by (simp add: len)
  moreover from handleStatusChange_toggles [OF refl rt9 ne9]
  have "tasks (handleStatusChange J_b 1700000000500 ''9'' panel_b) = tasks panel_b"
    by (simp add: panel_b_def task_a_def task_b_def)
  ultimately show ?thesis
    by (simp add: t1 task_b_def)
qed

text \<open>
  Claim C4 as it is written asks for a strictly greater \<open>updatedAt\<close>. Toggling
  \<open>task_b\<close> while the clock still reads 1700000000000, the instant of its last update,
  flips the status and leaves \<open>updatedAt\<close> at the same instant.
\<close>

theorem toggle_same_millisecond:
  "map updatedAt (tasks panel_b) = [None, Some 1700000000000] \<and>
   map status (tasks panel_b) = [''incomplete'', ''complete''] \<and>
   map updatedAt (tasks (handleStatusChange J_b 1700000000000 ''2'' panel_b)) =
     [None, Some 1700000000000] \<and>
   map status (tasks (handleStatusChange J_b 1700000000000 ''2'' panel_b)) =
     [''incomplete'', ''incomplete'']"
  by (simp add: handleStatusChange_def Let_def dispatchEvent_def storage_listener_def
      handleStorageChange_def setItem_def or_else_def truthy_def applyFilters_init
      J_b_def table_JSON_def panel_b_def toggleTask_def task_a_def task_b_def)

section \<open>Task Collection Manager: saving an edit\<close>

lemma trim_blank: "trim ''  '' = []"
  by code_simp

text \<open>
  Claim C6. For every id and every description, saving while the trimmed title of the
  edit form is empty changes nothing but the alert shown: the collection, the filtered
  view, the store, the calls of \<open>setItem\<close> and the dispatched events are the ones before,
  and the panel stays in edit mode with the same form.
\<close>

theorem saveTask_empty_title:
  "trim (form_title (editForm s)) = [] \<Longrightarrow>
   saveTask J now taskId s = s\<lparr>alerts := alerts s @ [''Task title cannot be empty'']\<rparr> \<and>
   tasks (saveTask J now taskId s) = tasks s \<and>
   filteredTasks (saveTask J now taskId s) = filteredTasks s \<and>
   localStorage (saveTask J now taskId s) = localStorage s \<and>
   setItem_calls (saveTask J now taskId s) = setItem_calls s \<and>
   dispatched (saveTask J now taskId s) = dispatched s \<and>
   editingTask (saveTask J now taskId s) = editingTask s \<and>
   editForm (saveTask J now taskId s) = editForm s"
  by (simp add: saveTask_def truthy_def)

theorem saveTask_empty_title_witness:
  "editingTask panel_edit = Some ''1'' \<and>
   form_title (editForm panel_edit) = ''  '' \<and>
   tasks (saveTask J_a 1700000000000 ''1'' panel_edit) = [task_a] \<and>
   localStorage (saveTask J_a 1700000000000 ''1'' panel_edit) ''tasks'' = None \<and>
   setItem_calls (saveTask J_a 1700000000000 ''1'' panel_edit) = [] \<and>
   dispatched (saveTask J_a 1700000000000 ''1'' panel_edit) = [] \<and>
   editingTask (saveTask J_a 1700000000000 ''1'' panel_edit) = Some ''1''"
  using saveTask_empty_title [of panel_edit J_a 1700000000000 "''1''"]
  by (simp add: panel_edit_def handleInputChange_description_def handleInputChange_title_def
      startEditing_def panel_a_def TaskList_init_def browser_empty_def trim_blank task_a_def)

section \<open>Task Collection Manager: loading\<close>

lemma loadTasks_absent:
  "getItem ''tasks'' s = None \<Longrightarrow> loadTasks J fc clk s = initMockTasks J fc clk s"
  by (simp add: loadTasks_def)

text \<open>
  Claim C7, amended. Loading while the store has no \<open>tasks\<close> key yields exactly four
  records whose ids, titles, descriptions, statuses and priorities are fixed, and which
  have no \<open>updatedAt\<close>. Each \<open>dueDate\<close> and each \<open>createdAt\<close> is a reading of the
  clock of its own, taken while the seed is built, shifted by a fixed number of days:
  the due dates by 0, 0, +1 and +2 days, the creation dates by 0, -1, -2 and -3 days;
  the eight readings are arbitrary. The encoding of these records is written under
  \<open>tasks\<close>, and reading the key again and decoding it gives the same four records. The
  JSON built-ins decode the seed they encode.
\<close>

theorem loadTasks_seeds_when_absent:
  "getItem ''tasks'' s = None \<Longrightarrow>
   parse J (stringify J (mockTasks clk)) = Some (mockTasks clk) \<Longrightarrow>
   length (tasks (loadTasks J fc clk s)) = 4 \<and>
   map task_id (tasks (loadTasks J fc clk s)) = [''1'', ''2'', ''3'', ''4''] \<and>
   map title (tasks (loadTasks J fc clk s)) =
     [''Complete project documentation'', ''Fix navigation bug'',
      ''Implement user feedback'', ''Update dependencies''] \<and>
   map description (tasks (loadTasks J fc clk s)) =
     [''Write comprehensive documentation for the TaskFlow project'',
      ''Address the issue with sidebar navigation on mobile devices'',
      ''Add the user feedback form to the dashboard'',
      ''Update all npm packages to their latest versions''] \<and>
   map status (tasks (loadTasks J fc clk s)) =
     [''incomplete'', ''complete'', ''incomplete'', ''incomplete''] \<and>
   map priority (tasks (loadTasks J fc clk s)) =
     [Some ''high'', Some ''medium'', Some ''low'', Some ''medium''] \<and>
   map dueDate (tasks (loadTasks J fc clk s)) =
     [Some (clk 0), Some (clk 2), Some (clk 4 + 86400000), Some (clk 6 + 172800000)] \<and>
   map createdAt (tasks (loadTasks J fc clk s)) =
     [clk 1, clk 3 - 86400000, clk 5 - 172800000, clk 7 - 259200000] \<and>
   map updatedAt (tasks (loadTasks J fc clk s)) = [None, None, None, None] \<and>
   setItem_calls (loadTasks J fc clk s) =
     setItem_calls s @ [(''tasks'', stringify J (tasks (loadTasks J fc clk s)))] \<and>
   Option.bind (getItem ''tasks'' (loadTasks J fc clk s)) (parse J) =
     Some (tasks (loadTasks J fc clk s)) \<and>
   error (loadTasks J fc clk s) = None \<and> loading (loadTasks J fc clk s) = False"
  by (simp add: loadTasks_absent initMockTasks_def setItem_def getItem_def Let_def mockTasks_def)

text \<open>
  A load of the empty store while the clock advances by a millisecond at every reading:
  the first record is due at one instant and created at the next.
\<close>

theorem loadTasks_seeds_when_absent_witness:
  "getItem ''tasks'' (TaskList_init browser_empty) = None \<and>
   map task_id (tasks (loadTasks J_seed filters_init clock_ticking (TaskList_init browser_empty))) =
     [''1'', ''2'', ''3'', ''4''] \<and>
   map dueDate (tasks (loadTasks J_seed filters_init clock_ticking (TaskList_init browser_empty))) =
     [Some 1700000000000, Some 1700000000002, Some 1700086400004, Some 1700172800006] \<and>
   map createdAt (tasks (loadTasks J_seed filters_init clock_ticking (TaskList_init browser_empty))) =
     [1700000000001, 1699913600003, 1699827200005, 1699740800007] \<and>
   getItem ''tasks'' (loadTasks J_seed filters_init clock_ticking (TaskList_init browser_empty)) =
     Some ''[seed]'' \<and>
   Option.bind
     (getItem ''tasks'' (loadTasks J_seed filters_init clock_ticking (TaskList_init browser_empty)))
     (parse J_seed) =
     Some (tasks (loadTasks J_seed filters_init clock_ticking (TaskList_init browser_empty)))"
proof -
  have absent: "getItem ''tasks'' (TaskList_init browser_empty) = None"
    by (simp add: getItem_def TaskList_init_def browser_empty_def)
  have roundtrip:
    "parse J_seed (stringify J_seed (mockTasks clock_ticking)) = Some (mockTasks clock_ticking)"
    by (simp add: J_seed_def table_JSON_def)
  have bytes: "stringify J_seed (mockTasks clock_ticking) = ''[seed]''"
    by (simp add: J_seed_def table_JSON_def mockTasks_def)
  have stored:
    "getItem ''tasks'' (loadTasks J_seed filters_init clock_ticking (TaskList_init browser_empty)) =
       Some ''[seed]''"
    by (simp add: loadTasks_absent [OF absent] initMockTasks_def setItem_def getItem_def Let_def
        bytes)
  from loadTasks_seeds_when_absent [OF absent roundtrip, of filters_init] absent stored
  show ?thesis by (simp add: clock_ticking_def)
qed

text \<open>
  Claim C7 as it is written calls the fields of the seed deterministic. Two loads of
  the same empty store, one millisecond apart, give different \<open>createdAt\<close> fields.
\<close>

theorem seed_depends_on_clock:
  "getItem ''tasks'' (TaskList_init browser_empty) = None \<and>
   map createdAt
     (tasks (mount_loadTasks J_seed (clock_at 1700000000000) (TaskList_init browser_empty))) \<noteq>
   map createdAt
     (tasks (mount_loadTasks J_seed (clock_at 1700000000001) (TaskList_init browser_empty)))"
  by (simp add: mount_loadTasks_def loadTasks_def initMockTasks_def setItem_def getItem_def Let_def
      mockTasks_def clock_at_def TaskList_init_def browser_empty_def)

text \<open>
  Claim C8, amended. When the store holds, under \<open>tasks\<close>, bytes that are not empty
  and do not parse, loading puts the panel in the error state with the message for the
  user, stops the loading state, and neither reseeds nor writes: the store and the calls
  of \<open>setItem\<close> are the ones before.
\<close>

theorem loadTasks_unparseable:
  "getItem ''tasks'' s = Some bytes \<Longrightarrow> bytes \<noteq> [] \<Longrightarrow> parse J bytes = None \<Longrightarrow>
   error (loadTasks J fc clk s) = Some ''Failed to load tasks. Please try again later.'' \<and>
   loading (loadTasks J fc clk s) = False \<and>
   localStorage (loadTasks J fc clk s) = localStorage s \<and>
   setItem_calls (loadTasks J fc clk s) = setItem_calls s \<and>
   tasks (loadTasks J fc clk s) = tasks s \<and>
   filteredTasks (loadTasks J fc clk s) = filteredTasks s"
  by (simp add: loadTasks_def truthy_def)

theorem loadTasks_unparseable_witness:
  "getItem ''tasks'' (TaskList_init browser_garbled) = Some ''[{oops'' \<and>
   parse J_seed ''[{oops'' = None \<and>
   error (loadTasks J_seed filters_init clock_ticking (TaskList_init browser_garbled)) =
     Some ''Failed to load tasks. Please try again later.'' \<and>
   localStorage (loadTasks J_seed filters_init clock_ticking (TaskList_init browser_garbled))
     ''tasks'' = Some ''[{oops'' \<and>
   setItem_calls (loadTasks J_seed filters_init clock_ticking (TaskList_init browser_garbled)) = []"
proof -
  have present: "getItem ''tasks'' (TaskList_init browser_garbled) = Some ''[{oops''"
    by (simp add: getItem_def TaskList_init_def browser_garbled_def browser_empty_def)
  have bad: "parse J_seed ''[{oops'' = None"
    by (simp add: J_seed_def table_JSON_def)
  from loadTasks_unparseable [OF present _ bad, of filters_init clock_ticking] present bad
  show ?thesis by (simp add: TaskList_init_def browser_garbled_def browser_empty_def)
qed

text \<open>
  Claim C8 as it is written covers every value that is present and does not parse. The
  empty string is present and does not parse, and it is falsy: the load takes the
  branch for a missing value, overwrites it with the seed and reports no error.
\<close>

theorem loadTasks_reseeds_empty_string:
  "getItem ''tasks'' (TaskList_init browser_blank) = Some [] \<and>
   parse J_seed [] = None \<and>
   setItem_calls (mount_loadTasks J_seed clock_ticking (TaskList_init browser_blank)) =
     [(''tasks'', ''[seed]'')] \<and>
   localStorage (mount_loadTasks J_seed clock_ticking (TaskList_init browser_blank)) ''tasks'' =
     Some ''[seed]'' \<and>
   error (mount_loadTasks J_seed clock_ticking (TaskList_init browser_blank)) = None"
  by (simp add: mount_loadTasks_def loadTasks_def initMockTasks_def setItem_def getItem_def Let_def
      truthy_def TaskList_init_def browser_blank_def browser_empty_def J_seed_def table_JSON_def
      mockTasks_def)

section \<open>Log Collection Manager: properties\<close>












text \<open>
  Claim C5. A delete request for an id that is not the pending one only makes it the
  pending one: the logs, the store and the calls of \<open>setItem\<close> stay as they are. A
  request for another id after it re-targets the marker and still removes nothing. A
  second request for the same id removes exactly the records with that id, writes the
  reduced collection under \<open>userLogs\<close> and clears the marker.
\<close>

theorem handleDelete_two_phase:
  "deleteConfirm s \<noteq> Some logId \<Longrightarrow>
   handleDelete J logId s = s\<lparr>deleteConfirm := Some logId\<rparr> \<and>
   (other \<noteq> logId \<longrightarrow>
      handleDelete J other (handleDelete J logId s) = s\<lparr>deleteConfirm := Some other\<rparr>) \<and>
   userLogs (handleDelete J logId (handleDelete J logId s)) =
      filter (\<lambda>log. log_id log \<noteq> logId) (userLogs s) \<and>
   localStorage (handleDelete J logId (handleDelete J logId s)) =
      (localStorage s)
        (''userLogs'' \<mapsto> stringify J (filter (\<lambda>log. log_id log \<noteq> logId) (userLogs s))) \<and>
   setItem_calls (handleDelete J logId (handleDelete J logId s)) =
      setItem_calls s @
        [(''userLogs'', stringify J (filter (\<lambda>log. log_id log \<noteq> logId) (userLogs s)))] \<and>
   deleteConfirm (handleDelete J logId (handleDelete J logId s)) = None"
  by (simp add: handleDelete_def setItem_def Let_def)

text \<open>
  Requesting \<open>2\<close> and then \<open>3\<close> deletes nothing; requesting \<open>3\<close> twice removes it.
\<close>

theorem handleDelete_two_phase_witness:
  "deleteConfirm logs_ready = None \<and>
   handleDelete J_logs ''3'' (handleDelete J_logs ''2'' logs_ready) =
     logs_ready\<lparr>deleteConfirm := Some ''3''\<rparr> \<and>
   map log_id (userLogs (handleDelete J_logs ''3'' (handleDelete J_logs ''2'' logs_ready))) =
     [''2'', ''3'', ''1''] \<and>
   setItem_calls (handleDelete J_logs ''3'' (handleDelete J_logs ''2'' logs_ready)) = [] \<and>
   map log_id (userLogs (handleDelete J_logs ''3'' (handleDelete J_logs ''3'' logs_ready))) =
     [''2'', ''1''] \<and>
   setItem_calls (handleDelete J_logs ''3'' (handleDelete J_logs ''3'' logs_ready)) =
     [(''userLogs'', ''[2,1]'')] \<and>
   localStorage (handleDelete J_logs ''3'' (handleDelete J_logs ''3'' logs_ready)) ''userLogs'' =
     Some ''[2,1]'' \<and>
   deleteConfirm (handleDelete J_logs ''3'' (handleDelete J_logs ''3'' logs_ready)) = None"
proof -
  have none: "deleteConfirm logs_ready = None"
    by (simp add: logs_ready_def RecentUsers_init_def)
  have p2: "deleteConfirm logs_ready \<noteq> Some ''2''" and p3: "deleteConfirm logs_ready \<noteq> Some ''3''"
    by (simp_all add: none)
  have logs: "userLogs logs_ready = [log_at ''2'' 300, log_at ''3'' 200, log_at ''1'' 100]"
    and calls: "setItem_calls logs_ready = []"
    by (simp_all add: logs_ready_def RecentUsers_init_def browser_logs_def browser_empty_def)
  have bytes: "stringify J_logs [log_at ''2'' 300, log_at ''1'' 100] = ''[2,1]''"
    by (simp add: J_logs_def table_JSON_def log_at_def)
  have left: "filter (\<lambda>log. log_id log \<noteq> ''3'') (userLogs logs_ready) =
      [log_at ''2'' 300, log_at ''1'' 100]"
    by (simp add: logs log_at_def)
  have ids: "map log_id (userLogs logs_ready) = [''2'', ''3'', ''1'']"
    "map log_id [log_at ''2'' 300, log_at ''1'' 100] = [''2'', ''1'']"
    by (simp_all add: logs log_at_def)
  have retarget: "handleDelete J_logs ''3'' (handleDelete J_logs ''2'' logs_ready) =
      logs_ready\<lparr>deleteConfirm := Some ''3''\<rparr>"
    using handleDelete_two_phase [OF p2, of J_logs "''3''", THEN conjunct2, THEN conjunct1]
    by simp
  have removal:
    "userLogs (handleDelete J_logs ''3'' (handleDelete J_logs ''3'' logs_ready)) =
       [log_at ''2'' 300, log_at ''1'' 100]"
    "localStorage (handleDelete J_logs ''3'' (handleDelete J_logs ''3'' logs_ready)) ''userLogs'' =
       Some ''[2,1]''"
    "setItem_calls (handleDelete J_logs ''3'' (handleDelete J_logs ''3'' logs_ready)) =
       [(''userLogs'', ''[2,1]'')]"
    "deleteConfirm (handleDelete J_logs ''3'' (handleDelete J_logs ''3'' logs_ready)) = None"
    using handleDelete_two_phase [OF p3, of J_logs "''3''", THEN conjunct2, THEN conjunct2]
    by (simp_all add: left bytes calls)
  show ?thesis
    by (simp add: none retarget removal ids calls log_at_def)
qed

end
